theory Spec2Isabelle
  imports Complex_Main "HOL-Library.Sublist"
begin

section \<open>Strings\<close>

text \<open>
  Network names and vendor names are Python \<open>str\<close> values, decoded from UTF-8.  A
  \<open>str\<close> is modelled by the \<open>string\<close> of its UTF-8 bytes: equality of two
  \<open>str\<close> is equality of their bytes, and for two \<open>str\<close> the test \<open>p in s\<close> is
  the contiguous-substring test \<^const>\<open>sublist\<close> on the bytes.

  \<open>str.upper()\<close> is Python's Unicode case mapping.  It belongs to the language, not to
  the repository, and it is not defined here: every function that calls it takes it as the
  parameter \<open>upper\<close>, and every property below holds for whatever \<open>upper\<close> is.
  On a \<open>str\<close> of ASCII characters \<open>str.upper()\<close> is \<open>ascii_upper\<close>, which the
  examples use.
\<close>

definition ascii_upper_char :: "char \<Rightarrow> char" where
  "ascii_upper_char c =
     (let n = (of_char c :: nat)
      in if 97 \<le> n \<and> n \<le> 122 then char_of (n - 32) else c)"

definition ascii_upper :: "string \<Rightarrow> string" where
  "ascii_upper s = map ascii_upper_char s"

definition py_in :: "string \<Rightarrow> string \<Rightarrow> bool" where
  "py_in p s = sublist p s"

definition any_in :: "string list \<Rightarrow> string \<Rightarrow> bool" where
  \<comment> \<open>\<open>any(pattern in s for pattern in patterns)\<close>\<close>
  "any_in patterns s = list_ex (\<lambda>pattern. py_in pattern s) patterns"

section \<open>The scanner: \<open>wifi_scanner.py\<close>\<close>

datatype category =
  POSSIBLE_OFFICIAL | ENTERPRISE | MOBILE_HOTSPOT | PUBLIC | IOT | ISP_PROVIDED | STANDARD

text \<open>One entry of the global dictionary \<open>networks\<close>.\<close>

record network =
  ssid :: string
  bssid :: string
  channel :: int
  encryption :: string
  signal :: int
  manufacturer :: string
  first_seen :: real
  last_seen :: real
  hidden :: bool
  net_type :: category

text \<open>The two globals the packet handlers mutate.\<close>

record scan_state =
  networks :: "string \<rightharpoonup> network"
  hidden_networks :: "string set"

definition init_state :: scan_state where
  "init_state = \<lparr>networks = Map.empty, hidden_networks = {}\<rparr>"

text \<open>
  A beacon frame as the handler reads it.  Frame decoding is done by scapy and is not
  part of the model: the record holds what the accessors of the source return for the
  packet.  \<open>bc_ssid\<close> is \<open>None\<close> when decoding the name raises; \<open>bc_signal\<close> is
  \<open>None\<close> when the packet has no \<open>dBm_AntSignal\<close> attribute; \<open>bc_manuf\<close> is what
  the vendor lookup yields (\<open>None\<close> when it yields nothing or raises).
  \<open>time.time()\<close> is read once for a known station and twice for a new one;
  \<open>bc_time\<close> and \<open>bc_time2\<close> are these readings.
\<close>

record beacon =
  bc_bssid :: string
  bc_ssid :: "string option"
  bc_channel :: int
  bc_encryption :: string
  bc_signal :: "int option"
  bc_manuf :: "string option"
  bc_time :: real
  bc_time2 :: real

record probe_resp =
  pr_bssid :: string
  pr_ssid :: "string option"
  pr_time :: real

datatype packet = Beacon beacon | ProbeResp probe_resp | OtherFrame

definition hidden_name :: string where
  "hidden_name = ''[Hidden Network]''"

definition get_signal_strength :: "int option \<Rightarrow> int" where
  "get_signal_strength a = (case a of Some v \<Rightarrow> v | None \<Rightarrow> - 100)"

definition get_manufacturer :: "string option \<Rightarrow> string" where
  "get_manufacturer m =
     (case m of
        Some v \<Rightarrow> if v \<noteq> [] then v else ''Unknown''
      | None \<Rightarrow> ''Unknown'')"

text \<open>The scanner's own four-argument \<open>classify_network\<close>.\<close>

definition scanner_classify_network ::
  "(string \<Rightarrow> string) \<Rightarrow> string \<Rightarrow> string \<Rightarrow> string \<Rightarrow> string \<Rightarrow> category" where
  "scanner_classify_network upper ssid' bssid' encryption' manufacturer' =
     (if any_in [''FBI'', ''GOV'', ''POLICE'', ''FED'', ''MIL'', ''DOD'', ''SECURE''] (upper ssid')
      then POSSIBLE_OFFICIAL
      else if any_in [''CORP'', ''ENTERPRISE'', ''STAFF'', ''EMPLOYEE''] (upper ssid')
      then ENTERPRISE
      else if any_in [''IPHONE'', ''ANDROID'', ''GALAXY'', ''MOBILE'', ''HOTSPOT''] (upper ssid')
      then MOBILE_HOTSPOT
      else if any_in [''PUBLIC'', ''GUEST'', ''FREE'', ''WIFI''] (upper ssid')
      then PUBLIC
      else STANDARD)"

definition process_beacon :: "(string \<Rightarrow> string) \<Rightarrow> beacon \<Rightarrow> scan_state \<Rightarrow> scan_state" where
  "process_beacon upper pkt st =
     (let b = bc_bssid pkt in
      case networks st b of
        Some n \<Rightarrow>
          st\<lparr>networks := (networks st)(b \<mapsto>
                n\<lparr>signal := get_signal_strength (bc_signal pkt), last_seen := bc_time pkt\<rparr>)\<rparr>
      | None \<Rightarrow>
          (let ssid0 = (case bc_ssid pkt of Some s \<Rightarrow> s | None \<Rightarrow> ''Unknown'');
               is_empty = (ssid0 = []);
               ssid1 = (if is_empty then hidden_name else ssid0);
               hidden' = (if is_empty then insert b (hidden_networks st) else hidden_networks st);
               manufacturer' = get_manufacturer (bc_manuf pkt)
           in \<lparr>networks = (networks st)(b \<mapsto>
                  \<lparr>ssid = ssid1,
                   bssid = b,
                   channel = bc_channel pkt,
                   encryption = bc_encryption pkt,
                   signal = get_signal_strength (bc_signal pkt),
                   manufacturer = manufacturer',
                   first_seen = bc_time pkt,
                   last_seen = bc_time2 pkt,
                   hidden = (ssid1 = hidden_name),
                   net_type = scanner_classify_network upper ssid1 b (bc_encryption pkt) manufacturer'\<rparr>),
                hidden_networks = hidden'\<rparr>))"

definition process_probe_response :: "probe_resp \<Rightarrow> scan_state \<Rightarrow> scan_state" where
  "process_probe_response pkt st =
     (let b = pr_bssid pkt in
      case pr_ssid pkt of
        None \<Rightarrow> st
      | Some s \<Rightarrow>
          if b \<in> hidden_networks st \<and> s \<noteq> [] \<and> s \<noteq> hidden_name then
            (case networks st b of
               Some n \<Rightarrow>
                 \<lparr>networks = (networks st)(b \<mapsto>
                    n\<lparr>ssid := s, hidden := False, last_seen := pr_time pkt\<rparr>),
                  hidden_networks = hidden_networks st - {b}\<rparr>
             | None \<Rightarrow> st)
          else st)"

fun process_packet :: "(string \<Rightarrow> string) \<Rightarrow> packet \<Rightarrow> scan_state \<Rightarrow> scan_state" where
  "process_packet upper (Beacon pkt) st = process_beacon upper pkt st"
| "process_packet upper (ProbeResp pkt) st = process_probe_response pkt st"
| "process_packet upper OtherFrame st = st"

text \<open>A capture session: the handler is called on each packet in arrival order.\<close>

fun sniff :: "(string \<Rightarrow> string) \<Rightarrow> packet list \<Rightarrow> scan_state \<Rightarrow> scan_state" where
  "sniff upper [] st = st"
| "sniff upper (p # ps) st = sniff upper ps (process_packet upper p st)"

text \<open>
  \<open>hidden_networks\<close> is meant to index the records flagged hidden; this is the
  half of that relation that every session keeps.
\<close>

definition store_inv :: "scan_state \<Rightarrow> bool" where
  "store_inv st = (\<forall>b \<in> hidden_networks st. \<exists>n. networks st b = Some n \<and> hidden n)"

section \<open>The signal analyzer: \<open>signal_analyzer.py\<close>\<close>

datatype py_error = KeyError | ValueError

text \<open>
  The analyzer keeps its own globals.  A record is created without \<open>last_seen\<close>,
  which is assigned right after; \<open>sa_signals\<close> is the list \<open>signals\<close> of
  (timestamp, signal) pairs, in arrival order.
\<close>

record sa_network =
  sa_ssid :: string
  sa_bssid :: string
  sa_first_seen :: real
  sa_last_seen :: "real option"
  sa_signals :: "(real \<times> int) list"

record sa_state =
  sa_networks :: "string \<rightharpoonup> sa_network"
  signal_history :: "string \<rightharpoonup> (real \<times> int) list"

definition sa_init :: sa_state where
  "sa_init = \<lparr>sa_networks = Map.empty, signal_history = Map.empty\<rparr>"

text \<open>
  The analyzer's \<open>process_beacon\<close>.  It reads the station address, the name, the
  signal level and one clock reading (\<open>bc_time\<close>).  Indexing a dictionary with a
  missing key raises \<open>KeyError\<close>.
\<close>

definition sa_process_beacon :: "beacon \<Rightarrow> sa_state \<Rightarrow> py_error + sa_state" where
  "sa_process_beacon pkt st =
     (let b = bc_bssid pkt;
          ssid0 = (case bc_ssid pkt of Some s \<Rightarrow> s | None \<Rightarrow> ''Unknown'');
          ssid1 = (if ssid0 = [] then hidden_name else ssid0);
          sig = get_signal_strength (bc_signal pkt);
          timestamp = bc_time pkt;
          st1 = (if b \<notin> dom (sa_networks st)
                 then \<lparr>sa_networks = (sa_networks st)(b \<mapsto>
                          \<lparr>sa_ssid = ssid1, sa_bssid = b, sa_first_seen = timestamp,
                           sa_last_seen = None, sa_signals = []\<rparr>),
                       signal_history = (signal_history st)(b \<mapsto> [])\<rparr>
                 else st)
      in case sa_networks st1 b of
           None \<Rightarrow> Inl KeyError
         | Some n \<Rightarrow>
             (let st2 = st1\<lparr>sa_networks := (sa_networks st1)(b \<mapsto>
                           n\<lparr>sa_last_seen := Some timestamp,
                             sa_signals := sa_signals n @ [(timestamp, sig)]\<rparr>)\<rparr>
              in case signal_history st2 b of
                   None \<Rightarrow> Inl KeyError
                 | Some h \<Rightarrow> Inr (st2\<lparr>signal_history := (signal_history st2)(b \<mapsto>
                                       h @ [(timestamp, sig)])\<rparr>)))"

subsection \<open>Floating-point operations\<close>

text \<open>
  The analyzer computes with numpy and with Python floats: \<open>np.mean\<close>, \<open>np.median\<close>
  and \<open>np.std\<close> of a list of integers, the difference of two floats, and
  \<open>round(x, 2)\<close>.  These operations return IEEE doubles, rounded as numpy and the
  hardware round them; they are not part of the repository and are not defined here.  The
  analyzer takes them as the parameter \<open>fp\<close>, and every property below holds for
  whatever they are.  A double is modelled by the real number it denotes; comparing a
  double with an integer constant, as the source does, is then the comparison of reals.
\<close>

record float_ops =
  np_mean :: "int list \<Rightarrow> real"
  np_median :: "int list \<Rightarrow> real"
  np_std :: "int list \<Rightarrow> real"
  float_sub :: "real \<Rightarrow> real \<Rightarrow> real"
  round2 :: "real \<Rightarrow> real"

text \<open>
  The quantities these operations approximate, in exact arithmetic: the mean, the median,
  the population variance and standard deviation (\<open>np.std\<close> has \<open>ddof = 0\<close>), the
  difference, and the nearest multiple of \<open>0.01\<close>.  They are not numpy's results;
  \<open>exact_ops\<close> serves to say what numpy is close to and to run the examples.
\<close>

definition exact_mean :: "int list \<Rightarrow> real" where
  "exact_mean xs = real_of_int (sum_list xs) / real (length xs)"

definition population_variance :: "int list \<Rightarrow> real" where
  "population_variance xs =
     (\<Sum>x \<leftarrow> xs. (real_of_int x - exact_mean xs)\<^sup>2) / real (length xs)"

definition population_std :: "int list \<Rightarrow> real" where
  "population_std xs = sqrt (population_variance xs)"

definition exact_median :: "int list \<Rightarrow> real" where
  "exact_median xs =
     (let s = sort xs; n = length s
      in if odd n then real_of_int (s ! (n div 2))
         else (real_of_int (s ! (n div 2 - 1)) + real_of_int (s ! (n div 2))) / 2)"

definition nearest_hundredth :: "real \<Rightarrow> real" where
  "nearest_hundredth x = real_of_int (round (x * 100)) / 100"

definition exact_ops :: float_ops where
  "exact_ops =
     \<lparr>np_mean = exact_mean, np_median = exact_median, np_std = population_std,
      float_sub = (\<lambda>a b. a - b), round2 = nearest_hundredth\<rparr>"

subsection \<open>The analysis\<close>

text \<open>\<open>min\<close> and \<open>max\<close> of a list raise \<open>ValueError\<close> on the empty list.\<close>

fun py_min :: "int list \<Rightarrow> py_error + int" where
  "py_min [] = Inl ValueError"
| "py_min (x # xs) = Inr (fold min xs x)"

fun py_max :: "int list \<Rightarrow> py_error + int" where
  "py_max [] = Inl ValueError"
| "py_max (x # xs) = Inr (fold max xs x)"

text \<open>
  The dictionary \<open>analyze_signal_stability\<close> returns.  The short report of the
  first return has only \<open>stability\<close>, \<open>std_dev\<close>, \<open>range\<close> and \<open>trend\<close>.
\<close>

record report =
  rp_stability :: string
  rp_std_dev :: real
  rp_mean :: "real option"
  rp_median :: "real option"
  rp_min :: "int option"
  rp_max :: "int option"
  rp_range :: int
  rp_trend :: string

definition stability_of :: "real \<Rightarrow> string" where
  "stability_of std_dev =
     (if std_dev < 2 then ''Very Stable''
      else if std_dev < 5 then ''Stable''
      else if std_dev < 10 then ''Moderately Stable''
      else ''Unstable'')"

definition trend_of :: "float_ops \<Rightarrow> int list \<Rightarrow> string" where
  "trend_of fp signal_values =
     (if length signal_values \<ge> 10 then
        (let first_half = take (length signal_values div 2) signal_values;
             second_half = drop (length signal_values div 2) signal_values;
             first_mean = np_mean fp first_half;
             second_mean = np_mean fp second_half
         in if float_sub fp second_mean first_mean > 3 then ''Improving''
            else if float_sub fp first_mean second_mean > 3 then ''Deteriorating''
            else ''Stable'')
      else ''Insufficient Data'')"

text \<open>
  \<open>analyze_signal_stability(signals, network_info)\<close>; \<open>network_info\<close> is not
  read by the source and is left out.  The band and the trend are the two \<open>if\<close>
  chains of the source, named \<^const>\<open>stability_of\<close> and \<^const>\<open>trend_of\<close>.
\<close>

definition analyze_signal_stability ::
  "float_ops \<Rightarrow> (real \<times> int) list \<Rightarrow> py_error + report" where
  "analyze_signal_stability fp signals =
     (if signals = [] \<or> length signals < 3 then
        Inr \<lparr>rp_stability = ''Unknown'', rp_std_dev = 0, rp_mean = None, rp_median = None,
             rp_min = None, rp_max = None, rp_range = 0, rp_trend = ''Unknown''\<rparr>
      else
        (let signal_values = map snd signals;
             mean = np_mean fp signal_values;
             median = np_median fp signal_values;
             std_dev = np_std fp signal_values
         in case py_min signal_values of
              Inl e \<Rightarrow> Inl e
            | Inr min_signal \<Rightarrow>
               (case py_max signal_values of
                  Inl e \<Rightarrow> Inl e
                | Inr max_signal \<Rightarrow>
                    Inr \<lparr>rp_stability = stability_of std_dev,
                         rp_std_dev = round2 fp std_dev,
                         rp_mean = Some (round2 fp mean),
                         rp_median = Some (round2 fp median),
                         rp_min = Some min_signal,
                         rp_max = Some max_signal,
                         rp_range = max_signal - min_signal,
                         rp_trend = trend_of fp signal_values\<rparr>)))"

section \<open>The classifier: \<open>network_classifier.py\<close>\<close>

text \<open>
  \<open>NETWORK_TYPES\<close> with the \<open>ssid_patterns\<close> of each entry, in the order of
  the dictionary.
\<close>

definition NETWORK_TYPES :: "(category \<times> string list) list" where
  "NETWORK_TYPES =
     [(POSSIBLE_OFFICIAL,
        [''FBI'', ''GOV'', ''POLICE'', ''FED'', ''MIL'', ''DOD'', ''SECURE'',
         ''AGENCY'', ''OFFICIAL'', ''LEO'', ''DHS'', ''EMERGENCY'', ''EMERG'']),
      (ENTERPRISE,
        [''CORP'', ''ENTERPRISE'', ''STAFF'', ''EMPLOYEE'', ''CORPORATE'',
         ''OFFICE'', ''BUSINESS'', ''COMPANY'', ''INC'', ''LLC'', ''LTD'']),
      (MOBILE_HOTSPOT,
        [''IPHONE'', ''ANDROID'', ''GALAXY'', ''MOBILE'', ''HOTSPOT'',
         ''MiFi'', ''PHONE'', ''POCKET'', ''SAMSUNG'', ''HUAWEI'', ''USB'']),
      (PUBLIC,
        [''PUBLIC'', ''GUEST'', ''FREE'', ''WIFI'', ''AIRPORT'', ''HOTEL'',
         ''CAFE'', ''RESTAURANT'', ''OPEN'', ''LIBRARY'', ''STORE'']),
      (IOT,
        [''CAM'', ''CAMERA'', ''RING'', ''NEST'', ''SMART'', ''HOME'',
         ''DEVICE'', ''SENSOR'', ''THERMOSTAT'', ''BULB'', ''TV'', ''ROKU'']),
      (ISP_PROVIDED,
        [''XFINITY'', ''COMCAST'', ''SPECTRUM'', ''ATT'', ''VERIZON'',
         ''FIOS'', ''OPTIMUM'', ''COX'', ''CENTURYLINK'', ''FRONTIER'', ''ROUTER''])]"

text \<open>
  The keys of \<open>MANUFACTURER_TYPES\<close>: \<open>"GOVERNMENT"\<close>, \<open>"ENTERPRISE"\<close>,
  \<open>"CONSUMER"\<close>, \<open>"MOBILE"\<close> and \<open>"IOT"\<close>.
\<close>

datatype mfg_type = GOVERNMENT | ENTERPRISE_VENDOR | CONSUMER_VENDOR | MOBILE_VENDOR | IOT_VENDOR

definition MANUFACTURER_TYPES :: "(mfg_type \<times> string list) list" where
  "MANUFACTURER_TYPES =
     [(GOVERNMENT, [''HARRIS'', ''GENERAL DYNAMICS'', ''NORTHROP'', ''LOCKHEED'', ''RAYTHEON'']),
      (ENTERPRISE_VENDOR, [''CISCO'', ''ARUBA'', ''JUNIPER'', ''EXTREME'', ''FORTINET'', ''RUCKUS'']),
      (CONSUMER_VENDOR, [''NETGEAR'', ''LINKSYS'', ''TP-LINK'', ''D-LINK'', ''BELKIN'', ''ASUS'']),
      (MOBILE_VENDOR, [''APPLE'', ''SAMSUNG'', ''GOOGLE'', ''HUAWEI'', ''XIAOMI'', ''MOTOROLA'', ''HTC'']),
      (IOT_VENDOR, [''NEST'', ''RING'', ''ECOBEE'', ''WYZE'', ''SONOS'', ''ROKU'', ''AMAZON''])]"

text \<open>
  The dictionary \<open>network_data\<close>; every key is read with \<open>.get\<close> and a default,
  so a key may be absent.
\<close>

record network_data =
  nd_ssid :: "string option"
  nd_encryption :: "string option"
  nd_hidden :: "bool option"
  nd_manufacturer :: "string option"
  nd_signal :: "int option"

text \<open>The dictionary \<open>scores\<close>: one integer for each of its seven fixed keys.\<close>

type_synonym scores = "category \<Rightarrow> int"

definition score_keys :: "category list" where
  "score_keys =
     [POSSIBLE_OFFICIAL, ENTERPRISE, MOBILE_HOTSPOT, PUBLIC, IOT, ISP_PROVIDED, STANDARD]"

definition add_score :: "category \<Rightarrow> int \<Rightarrow> scores \<Rightarrow> scores" where
  \<comment> \<open>\<open>scores[t] += k\<close>\<close>
  "add_score t k sc = sc(t := sc t + k)"

definition mfg_bonus :: "mfg_type \<Rightarrow> scores \<Rightarrow> scores" where
  "mfg_bonus mfg_type sc =
     (case mfg_type of
        GOVERNMENT \<Rightarrow> add_score POSSIBLE_OFFICIAL 4 sc
      | ENTERPRISE_VENDOR \<Rightarrow> add_score ENTERPRISE 3 sc
      | CONSUMER_VENDOR \<Rightarrow> add_score ISP_PROVIDED 1 (add_score STANDARD 2 sc)
      | MOBILE_VENDOR \<Rightarrow> add_score MOBILE_HOTSPOT 4 sc
      | IOT_VENDOR \<Rightarrow> add_score IOT 4 sc)"

text \<open>Lines 81 to 138 of \<open>classify_network\<close>: the scores of a record.\<close>

definition score_network :: "(string \<Rightarrow> string) \<Rightarrow> network_data \<Rightarrow> scores" where
  "score_network upper network_data =
     (let ssid' = upper (case nd_ssid network_data of Some s \<Rightarrow> s | None \<Rightarrow> []);
          encryption' = (case nd_encryption network_data of Some e \<Rightarrow> e | None \<Rightarrow> ''Unknown'');
          hidden' = (case nd_hidden network_data of Some h \<Rightarrow> h | None \<Rightarrow> False);
          manufacturer' =
            upper (case nd_manufacturer network_data of Some m \<Rightarrow> m | None \<Rightarrow> ''Unknown'');
          signal' = (case nd_signal network_data of Some v \<Rightarrow> v | None \<Rightarrow> - 100);
          sc0 = (\<lambda>_. 0);
          sc1 = (if hidden' then add_score ENTERPRISE 2 (add_score POSSIBLE_OFFICIAL 3 sc0)
                 else sc0);
          sc2 = (if encryption' = ''WPA2/WPA3''
                 then add_score ISP_PROVIDED 1
                        (add_score ENTERPRISE 2 (add_score POSSIBLE_OFFICIAL 2 sc1))
                 else if encryption' = ''Open'' then add_score PUBLIC 3 sc1
                 else sc1);
          sc3 = fold (\<lambda>(network_type, patterns).
                        fold (\<lambda>pattern sc.
                                if py_in pattern ssid' then add_score network_type 4 sc else sc)
                             patterns)
                     NETWORK_TYPES sc2;
          sc4 = fold (\<lambda>(mfg_type, mfg_list).
                        fold (\<lambda>mfg sc.
                                if py_in mfg manufacturer' then mfg_bonus mfg_type sc else sc)
                             mfg_list)
                     MANUFACTURER_TYPES sc3
      in if signal' > - 40 then add_score ISP_PROVIDED 1 (add_score STANDARD 1 sc4)
         else if signal' < - 80 then add_score MOBILE_HOTSPOT 1 sc4
         else sc4)"

definition priorities :: "category list" where
  "priorities =
     [POSSIBLE_OFFICIAL, ENTERPRISE, MOBILE_HOTSPOT, PUBLIC, IOT, ISP_PROVIDED, STANDARD]"

text \<open>
  Lines 140 to 161: the result read off the scores.  The confidence is a Python float;
  the model computes \<open>max_score / 10.0\<close> and the two \<open>min\<close> in \<open>real\<close>.
\<close>

definition resolve_scores :: "scores \<Rightarrow> category \<times> real" where
  "resolve_scores sc =
     (let max_score = Max (set (map sc score_keys)) in
      if max_score = 0 then (STANDARD, 0)
      else
        (let candidates = filter (\<lambda>t. sc t = max_score) score_keys in
         if length candidates = 1 then (hd candidates, min 1 (real_of_int max_score / 10))
         else
           (case find (\<lambda>p. p \<in> set candidates) priorities of
              Some p \<Rightarrow> (p, min (7 / 10) (real_of_int max_score / 10))
            | None \<Rightarrow> (STANDARD, 0))))"

definition classify_network :: "(string \<Rightarrow> string) \<Rightarrow> network_data \<Rightarrow> category \<times> real" where
  "classify_network upper network_data = resolve_scores (score_network upper network_data)"

subsection \<open>Reading the scores\<close>

text \<open>
  The number of keywords of a list that a string contains, the keyword list of a category
  in \<^const>\<open>NETWORK_TYPES\<close> (none for \<open>STANDARD\<close>), the manufacturer list of a key of
  \<^const>\<open>MANUFACTURER_TYPES\<close>, and what one matching manufacturer of that key adds to
  the score of a category.
\<close>

definition matches :: "string list \<Rightarrow> string \<Rightarrow> int" where
  "matches keywords s = int (length (filter (\<lambda>k. py_in k s) keywords))"

definition ssid_patterns :: "category \<Rightarrow> string list" where
  "ssid_patterns c = (case map_of NETWORK_TYPES c of Some ps \<Rightarrow> ps | None \<Rightarrow> [])"

definition mfg_list :: "mfg_type \<Rightarrow> string list" where
  "mfg_list t = (case map_of MANUFACTURER_TYPES t of Some ms \<Rightarrow> ms | None \<Rightarrow> [])"

definition mfg_points :: "mfg_type \<Rightarrow> category \<Rightarrow> int" where
  "mfg_points t c =
     (case t of
        GOVERNMENT \<Rightarrow> if c = POSSIBLE_OFFICIAL then 4 else 0
      | ENTERPRISE_VENDOR \<Rightarrow> if c = ENTERPRISE then 3 else 0
      | CONSUMER_VENDOR \<Rightarrow> if c = STANDARD then 2 else if c = ISP_PROVIDED then 1 else 0
      | MOBILE_VENDOR \<Rightarrow> if c = MOBILE_HOTSPOT then 4 else 0
      | IOT_VENDOR \<Rightarrow> if c = IOT then 4 else 0)"

text \<open>
  The vendor evidence as the specification words it: a record has at most one vendor
  class, and the class adds its increments once.
\<close>

definition claimed_vendor_points :: "mfg_type option \<Rightarrow> category \<Rightarrow> int" where
  "claimed_vendor_points hint c = (case hint of None \<Rightarrow> 0 | Some t \<Rightarrow> mfg_points t c)"

section \<open>Example inputs\<close>

definition ex_hidden_beacon :: beacon where
  "ex_hidden_beacon =
     \<lparr>bc_bssid = ''AA:1'', bc_ssid = Some [], bc_channel = 6, bc_encryption = ''WPA2'',
      bc_signal = Some (- 55), bc_manuf = Some ''Cisco'', bc_time = 100, bc_time2 = 101\<rparr>"

definition ex_later_beacon :: beacon where
  "ex_later_beacon =
     \<lparr>bc_bssid = ''AA:1'', bc_ssid = Some [], bc_channel = 11, bc_encryption = ''Open'',
      bc_signal = Some (- 70), bc_manuf = Some ''Cisco'', bc_time = 110, bc_time2 = 111\<rparr>"

definition ex_probe :: probe_resp where
  "ex_probe = \<lparr>pr_bssid = ''AA:1'', pr_ssid = Some ''OFFICE-NET'', pr_time = 105\<rparr>"

definition ex_sentinel_beacon :: beacon where
  "ex_sentinel_beacon =
     \<lparr>bc_bssid = ''AA:2'', bc_ssid = Some ''[Hidden Network]'', bc_channel = 1,
      bc_encryption = ''Open'', bc_signal = None, bc_manuf = None, bc_time = 200, bc_time2 = 201\<rparr>"

text \<open>A record whose name matches one enterprise keyword and one public keyword.\<close>

definition ex_tie :: network_data where
  "ex_tie = \<lparr>nd_ssid = Some ''Corp Guest'', nd_encryption = Some ''WPA2'',
             nd_hidden = Some False, nd_manufacturer = None, nd_signal = Some (- 60)\<rparr>"

text \<open>The two sample sequences of the specification, with timestamps \<open>0, 1, 2, \<dots>\<close>.\<close>

definition ex_stable_samples :: "(real \<times> int) list" where
  "ex_stable_samples = [(0, - 50), (1, - 51), (2, - 49), (3, - 50), (4, - 52)]"

definition ex_falling_samples :: "(real \<times> int) list" where
  "ex_falling_samples =
     [(0, - 50), (1, - 50), (2, - 50), (3, - 50), (4, - 50),
      (5, - 60), (6, - 60), (7, - 60), (8, - 60), (9, - 60)]"

text \<open>The state of the analyzer after the first example beacon.\<close>

definition ex_sa_state :: sa_state where
  "ex_sa_state =
     \<lparr>sa_networks = [''AA:1'' \<mapsto>
        \<lparr>sa_ssid = ''[Hidden Network]'', sa_bssid = ''AA:1'', sa_first_seen = 100,
         sa_last_seen = Some 100, sa_signals = [(100, - 55)]\<rparr>],
      signal_history = [''AA:1'' \<mapsto> [(100, - 55)]]\<rparr>"

text \<open>A record whose vendor name contains two enterprise vendor keywords.\<close>

definition ex_two_vendors :: network_data where
  "ex_two_vendors = \<lparr>nd_ssid = Some ''lab'', nd_encryption = Some ''WPA2'',
     nd_hidden = Some False, nd_manufacturer = Some ''Cisco Aruba'', nd_signal = Some (- 60)\<rparr>"

section \<open>Properties of the scanner\<close>

lemmas ex_defs = ex_hidden_beacon_def ex_later_beacon_def ex_probe_def ex_sentinel_beacon_def
  init_state_def process_beacon_def process_probe_response_def hidden_name_def
  get_signal_strength_def get_manufacturer_def Let_def

lemma store_inv_init: "store_inv init_state"
  by (simp add: store_inv_def init_state_def)

lemma store_inv_process_beacon:
  assumes "store_inv st"
  shows "store_inv (process_beacon upper pkt st)"
  using assms
  by (auto simp: store_inv_def process_beacon_def Let_def split: option.splits)

lemma store_inv_process_probe_response:
  assumes "store_inv st"
  shows "store_inv (process_probe_response pkt st)"
  using assms
  by (auto simp: store_inv_def process_probe_response_def Let_def split: option.splits)

lemma store_inv_process_packet: "store_inv st \<Longrightarrow> store_inv (process_packet upper p st)"
  by (cases p) (simp_all add: store_inv_process_beacon store_inv_process_probe_response)

lemma store_inv_sniff: "store_inv st \<Longrightarrow> store_inv (sniff upper ps st)"
  by (induction ps arbitrary: st) (simp_all add: store_inv_process_packet)

lemma sniff_append: "sniff upper (ps @ qs) st = sniff upper qs (sniff upper ps st)"
  by (induction ps arbitrary: st) simp_all

lemma hidden_has_record:
  assumes "b \<in> hidden_networks (sniff upper ps init_state)"
  obtains n where "networks (sniff upper ps init_state) b = Some n" and "hidden n"
  using store_inv_sniff [where upper = upper and ps = ps, OF store_inv_init] assms
  unfolding store_inv_def by blast

text \<open>
  Claim C3.  In any state a capture session reaches, a probe response changes the state
  only when its station is in \<open>hidden_networks\<close> and the decoded name is neither
  empty nor the placeholder for a hidden network.  Then the station's record gets the
  disclosed name, \<open>hidden = False\<close> and the new \<open>last_seen\<close>, and the station
  leaves \<open>hidden_networks\<close>.  For a station that is not in \<open>hidden_networks\<close>,
  for one that has no record, for one whose record is not hidden, and for a name that
  is undecodable, empty or the placeholder, the state is returned as it was.
\<close>

theorem probe_response_effect:
  assumes st: "st = sniff upper ps init_state"
    and st': "st' = process_probe_response pkt st"
  shows "(\<forall>s. pr_bssid pkt \<in> hidden_networks st \<and> pr_ssid pkt = Some s \<and> s \<noteq> [] \<and> s \<noteq> hidden_name \<longrightarrow>
            (\<exists>n. networks st (pr_bssid pkt) = Some n \<and>
                 st' = \<lparr>networks = (networks st)(pr_bssid pkt \<mapsto>
                                      n\<lparr>ssid := s, hidden := False, last_seen := pr_time pkt\<rparr>),
                       hidden_networks = hidden_networks st - {pr_bssid pkt}\<rparr>))
       \<and> (pr_bssid pkt \<notin> hidden_networks st \<longrightarrow> st' = st)
       \<and> (networks st (pr_bssid pkt) = None \<longrightarrow> st' = st)
       \<and> (\<forall>n. networks st (pr_bssid pkt) = Some n \<and> \<not> hidden n \<longrightarrow> st' = st)
       \<and> (pr_ssid pkt = None \<or> pr_ssid pkt = Some [] \<or> pr_ssid pkt = Some hidden_name \<longrightarrow> st' = st)"
proof -
  have rec: "\<exists>n. networks st (pr_bssid pkt) = Some n \<and> hidden n"
    if "pr_bssid pkt \<in> hidden_networks st"
    using that hidden_has_record unfolding st by metis
  have a: "\<exists>n. networks st (pr_bssid pkt) = Some n \<and>
                 st' = \<lparr>networks = (networks st)(pr_bssid pkt \<mapsto>
                                      n\<lparr>ssid := s, hidden := False, last_seen := pr_time pkt\<rparr>),
                       hidden_networks = hidden_networks st - {pr_bssid pkt}\<rparr>"
    if "pr_bssid pkt \<in> hidden_networks st" "pr_ssid pkt = Some s" "s \<noteq> []" "s \<noteq> hidden_name" for s
    using that rec [OF that(1)] by (auto simp: st' process_probe_response_def Let_def)
  have b: "st' = st" if "pr_bssid pkt \<notin> hidden_networks st"
    using that by (simp add: st' process_probe_response_def Let_def split: option.splits)
  have c: "st' = st" if "networks st (pr_bssid pkt) = None"
    using that by (simp add: st' process_probe_response_def Let_def split: option.splits)
  have d: "st' = st" if "networks st (pr_bssid pkt) = Some n" "\<not> hidden n" for n
    using that rec b by fastforce
  have e: "st' = st" if "pr_ssid pkt = None \<or> pr_ssid pkt = Some [] \<or> pr_ssid pkt = Some hidden_name"
    using that by (auto simp: st' process_probe_response_def Let_def)
  from a b c d e show ?thesis by blast
qed

theorem probe_response_effect_witness:
  "pr_bssid ex_probe \<in> hidden_networks (sniff ascii_upper [Beacon ex_hidden_beacon] init_state)
   \<and> pr_ssid ex_probe = Some ''OFFICE-NET''
   \<and> hidden_networks (process_probe_response ex_probe (sniff ascii_upper [Beacon ex_hidden_beacon] init_state)) = {}
   \<and> map_option ssid (networks (process_probe_response ex_probe
          (sniff ascii_upper [Beacon ex_hidden_beacon] init_state)) ''AA:1'') = Some ''OFFICE-NET''
   \<and> map_option hidden (networks (process_probe_response ex_probe
          (sniff ascii_upper [Beacon ex_hidden_beacon] init_state)) ''AA:1'') = Some False
   \<and> map_option last_seen (networks (process_probe_response ex_probe
          (sniff ascii_upper [Beacon ex_hidden_beacon] init_state)) ''AA:1'') = Some 105
   \<and> process_probe_response ex_probe init_state = init_state"
  using probe_response_effect [where upper = ascii_upper and ps = "[Beacon ex_hidden_beacon]"
      and pkt = ex_probe, OF refl refl]
    probe_response_effect [where upper = ascii_upper and ps = "[]" and pkt = ex_probe, OF refl refl]
  by (auto simp: ex_defs)

text \<open>
  Claim C10.  A probe response leaves the record of every other station as it was,
  creates and deletes no record, and in the record of its own station keeps
  \<open>bssid\<close>, \<open>channel\<close>, \<open>encryption\<close>, \<open>signal\<close>, \<open>manufacturer\<close>,
  \<open>type\<close> and \<open>first_seen\<close>: only \<open>ssid\<close>, \<open>hidden\<close> and \<open>last_seen\<close>
  can change.
\<close>

theorem probe_response_frame:
  assumes st': "st' = process_probe_response pkt st"
  shows "(\<forall>b. b \<noteq> pr_bssid pkt \<longrightarrow> networks st' b = networks st b)
       \<and> dom (networks st') = dom (networks st)
       \<and> (\<forall>n. networks st (pr_bssid pkt) = Some n \<longrightarrow>
            (\<exists>n'. networks st' (pr_bssid pkt) = Some n'
                \<and> bssid n' = bssid n \<and> channel n' = channel n \<and> encryption n' = encryption n
                \<and> signal n' = signal n \<and> manufacturer n' = manufacturer n
                \<and> net_type n' = net_type n \<and> first_seen n' = first_seen n))"
  unfolding st'
  by (auto simp: process_probe_response_def Let_def split: option.splits)

theorem probe_response_frame_witness:
  "map_option channel (networks (process_probe_response ex_probe
          (sniff ascii_upper [Beacon ex_hidden_beacon] init_state)) ''AA:1'') = Some 6
   \<and> map_option encryption (networks (process_probe_response ex_probe
          (sniff ascii_upper [Beacon ex_hidden_beacon] init_state)) ''AA:1'') = Some ''WPA2''
   \<and> map_option first_seen (networks (process_probe_response ex_probe
          (sniff ascii_upper [Beacon ex_hidden_beacon] init_state)) ''AA:1'') = Some 100
   \<and> networks (process_probe_response ex_probe
          (sniff ascii_upper [Beacon ex_hidden_beacon] init_state)) ''AA:2'' = None"
  using probe_response_frame [where pkt = ex_probe
      and st = "sniff ascii_upper [Beacon ex_hidden_beacon] init_state", OF refl]
  by (auto simp: ex_defs)

lemma visible_process_packet:
  assumes "networks st b = Some n" "\<not> hidden n" "b \<notin> hidden_networks st"
  shows "\<exists>n'. networks (process_packet upper p st) b = Some n' \<and> \<not> hidden n' \<and> ssid n' = ssid n
            \<and> b \<notin> hidden_networks (process_packet upper p st)"
  using assms
  by (cases p) (auto simp: process_beacon_def process_probe_response_def Let_def split: option.splits)

lemma visible_sniff:
  assumes "networks st b = Some n" "\<not> hidden n" "b \<notin> hidden_networks st"
  shows "\<exists>n'. networks (sniff upper ps st) b = Some n' \<and> \<not> hidden n' \<and> ssid n' = ssid n
            \<and> b \<notin> hidden_networks (sniff upper ps st)"
  using assms
proof (induction ps arbitrary: st n)
  case Nil
  then show ?case by simp
next
  case (Cons p ps)
  from visible_process_packet [where upper = upper and p = p, OF Cons.prems]
  obtain n1 where n1: "networks (process_packet upper p st) b = Some n1" "\<not> hidden n1"
    "ssid n1 = ssid n" "b \<notin> hidden_networks (process_packet upper p st)"
    by blast
  from Cons.IH [OF n1(1) n1(2) n1(4)] n1(3) show ?case by simp
qed

text \<open>
  Claim C6.  Once a probe response has resolved a hidden station, whatever packets
  follow in the session (beacons without a name included), the station is not in
  \<open>hidden_networks\<close>, its record is not flagged hidden, and it keeps the disclosed
  name.
\<close>

theorem resolved_never_reconcealed:
  assumes "pr_bssid pkt \<in> hidden_networks (sniff upper ps init_state)"
    and "pr_ssid pkt = Some s" and "s \<noteq> []" and "s \<noteq> hidden_name"
  shows "pr_bssid pkt \<notin> hidden_networks (sniff upper (ps @ ProbeResp pkt # qs) init_state)
       \<and> (\<exists>n. networks (sniff upper (ps @ ProbeResp pkt # qs) init_state) (pr_bssid pkt) = Some n
              \<and> \<not> hidden n \<and> ssid n = s)"
proof -
  let ?st = "sniff upper ps init_state"
  let ?st1 = "process_probe_response pkt ?st"
  obtain n where n: "networks ?st (pr_bssid pkt) = Some n"
    using hidden_has_record [OF assms(1)] by blast
  have st1: "?st1 = \<lparr>networks = (networks ?st)(pr_bssid pkt \<mapsto>
                        n\<lparr>ssid := s, hidden := False, last_seen := pr_time pkt\<rparr>),
                     hidden_networks = hidden_networks ?st - {pr_bssid pkt}\<rparr>"
    using assms n by (simp add: process_probe_response_def Let_def)
  have "\<exists>n'. networks (sniff upper qs ?st1) (pr_bssid pkt) = Some n' \<and> \<not> hidden n'
           \<and> ssid n' = ssid (n\<lparr>ssid := s, hidden := False, last_seen := pr_time pkt\<rparr>)
           \<and> pr_bssid pkt \<notin> hidden_networks (sniff upper qs ?st1)"
    by (rule visible_sniff) (simp_all add: st1)
  then show ?thesis by (auto simp: sniff_append)
qed

theorem resolved_never_reconcealed_witness:
  "pr_bssid ex_probe \<in> hidden_networks (sniff ascii_upper [Beacon ex_hidden_beacon] init_state)
   \<and> ''AA:1'' \<notin> hidden_networks
         (sniff ascii_upper ([Beacon ex_hidden_beacon] @ ProbeResp ex_probe # [Beacon ex_later_beacon]) init_state)
   \<and> map_option hidden (networks
         (sniff ascii_upper ([Beacon ex_hidden_beacon] @ ProbeResp ex_probe # [Beacon ex_later_beacon]) init_state)
         ''AA:1'') = Some False
   \<and> map_option ssid (networks
         (sniff ascii_upper ([Beacon ex_hidden_beacon] @ ProbeResp ex_probe # [Beacon ex_later_beacon]) init_state)
         ''AA:1'') = Some ''OFFICE-NET''"
proof -
  have h: "pr_bssid ex_probe \<in> hidden_networks (sniff ascii_upper [Beacon ex_hidden_beacon] init_state)"
    by (simp add: ex_defs)
  have s: "pr_ssid ex_probe = Some ''OFFICE-NET''" "''OFFICE-NET'' \<noteq> []" "''OFFICE-NET'' \<noteq> hidden_name"
    by (simp_all add: ex_defs)
  from resolved_never_reconcealed [where qs = "[Beacon ex_later_beacon]", OF h s] h
  show ?thesis by (auto simp: ex_probe_def)
qed

text \<open>
  Claim C5, at the input where it fails.  A first beacon of a station whose advertised
  name is literally \<open>[Hidden Network]\<close> creates a record flagged hidden, while the
  station is not added to \<open>hidden_networks\<close>: after this packet the set differs
  from the set of stations whose record is flagged hidden.
\<close>

theorem sentinel_named_station_not_indexed:
  "map_option hidden (networks (sniff ascii_upper [Beacon ex_sentinel_beacon] init_state) ''AA:2'') = Some True
   \<and> ''AA:2'' \<notin> hidden_networks (sniff ascii_upper [Beacon ex_sentinel_beacon] init_state)
   \<and> hidden_networks (sniff ascii_upper [Beacon ex_sentinel_beacon] init_state)
       \<noteq> {b. \<exists>n. networks (sniff ascii_upper [Beacon ex_sentinel_beacon] init_state) b = Some n \<and> hidden n}"
proof -
  let ?st = "sniff ascii_upper [Beacon ex_sentinel_beacon] init_state"
  have a: "map_option hidden (networks ?st ''AA:2'') = Some True"
    by (simp add: ex_defs)
  have b: "''AA:2'' \<notin> hidden_networks ?st"
    by (simp add: ex_defs)
  from a have "''AA:2'' \<in> {b. \<exists>n. networks ?st b = Some n \<and> hidden n}"
    by auto
  with b have "hidden_networks ?st \<noteq> {b. \<exists>n. networks ?st b = Some n \<and> hidden n}"
    by blast
  with a b show ?thesis by blast
qed

section \<open>Properties of the classifier\<close>

lemma set_score_keys: "set score_keys = UNIV"
proof -
  have "c \<in> set score_keys" for c
    by (cases c) (simp_all add: score_keys_def)
  then show ?thesis by blast
qed

lemma candidates_set:
  "set (filter (\<lambda>t. sc t = m) score_keys) = {c. sc c = m}"
proof -
  have "set (filter (\<lambda>t. sc t = m) score_keys) = {x \<in> set score_keys. sc x = m}"
    by (rule set_filter)
  also have "\<dots> = {c. sc c = m}"
    by (simp only: set_score_keys UNIV_I simp_thms)
  finally show ?thesis .
qed

lemma distinct_score_keys: "distinct score_keys"
  by (simp add: score_keys_def)

lemma candidates_length:
  "length (filter (\<lambda>t. sc t = m) score_keys) = card {c. sc c = m}"
proof -
  have "distinct (filter (\<lambda>t. sc t = m) score_keys)"
    using distinct_score_keys by (rule distinct_filter)
  then have "card (set (filter (\<lambda>t. sc t = m) score_keys)) = length (filter (\<lambda>t. sc t = m) score_keys)"
    by (rule distinct_card)
  then show ?thesis by (simp only: candidates_set)
qed

lemma candidates_mem:
  "(p \<in> set (filter (\<lambda>t. sc t = m) score_keys)) = (sc p = m)"
  by (simp only: candidates_set mem_Collect_eq)

lemma max_score_range: "Max (set (map sc score_keys)) = Max (range sc)"
  by (simp only: set_map set_score_keys)

lemma resolve_scores_unfold:
  "resolve_scores sc =
     (if Max (range sc) = 0 then (STANDARD, 0)
      else if card {c. sc c = Max (range sc)} = 1
           then (hd (filter (\<lambda>t. sc t = Max (range sc)) score_keys),
                 min 1 (real_of_int (Max (range sc)) / 10))
           else (case find (\<lambda>p. sc p = Max (range sc)) priorities of
                   Some p \<Rightarrow> (p, min (7 / 10) (real_of_int (Max (range sc)) / 10))
                 | None \<Rightarrow> (STANDARD, 0)))"
  by (simp only: resolve_scores_def Let_def max_score_range candidates_mem candidates_length)

lemma find_some:
  assumes "\<exists>x \<in> set xs. P x"
  shows "\<exists>c. find P xs = Some c"
proof (cases "find P xs")
  case None
  then have "\<not> (\<exists>x. x \<in> set xs \<and> P x)" using find_None_iff [of P xs] by blast
  with assms show ?thesis by blast
next
  case (Some a)
  then show ?thesis by blast
qed

lemma set_priorities: "set priorities = UNIV"
proof -
  have "c \<in> set priorities" for c
    by (cases c) (simp_all add: priorities_def)
  then show ?thesis by blast
qed

lemma finite_category: "finite (UNIV :: category set)"
  using finite_set [of score_keys] by (simp only: set_score_keys)

lemma finite_range_scores: "finite (range (sc :: scores))"
  using finite_category by (rule finite_imageI)

lemma max_attained: "\<exists>c. (sc :: scores) c = Max (range sc)"
proof -
  have "Max (range sc) \<in> range sc"
    by (rule Max_in) (simp_all add: finite_range_scores)
  then show ?thesis by auto
qed

lemma find_first:
  assumes "find P xs = Some c"
  shows "\<exists>pre post. xs = pre @ c # post \<and> P c \<and> (\<forall>p \<in> set pre. \<not> P p)"
  using assms
proof (induction xs)
  case Nil
  then show ?case by simp
next
  case (Cons x xs)
  show ?case
  proof (cases "P x")
    case True
    with Cons.prems have "x = c" by simp
    with True have "x # xs = [] @ c # xs \<and> P c \<and> (\<forall>p \<in> set []. \<not> P p)" by simp
    then show ?thesis by blast
  next
    case False
    with Cons.prems have "find P xs = Some c" by simp
    from Cons.IH [OF this] obtain pre post
      where "xs = pre @ c # post" "P c" "\<forall>p \<in> set pre. \<not> P p" by blast
    with False have "x # xs = (x # pre) @ c # post \<and> P c \<and> (\<forall>p \<in> set (x # pre). \<not> P p)"
      by simp
    then show ?thesis by blast
  qed
qed

lemma ex1_singleton: "(\<exists>!c. P c) \<longleftrightarrow> (\<exists>x. {c. P c} = {x})"
proof
  assume "\<exists>!c. P c"
  then obtain x where px: "P x" and u: "\<And>y. P y \<Longrightarrow> y = x" by (elim ex1E) blast
  have "{c. P c} = {x}"
  proof (rule set_eqI)
    fix y
    show "y \<in> {c. P c} \<longleftrightarrow> y \<in> {x}"
      using px u by (unfold mem_Collect_eq singleton_iff) blast
  qed
  then show "\<exists>x. {c. P c} = {x}" by (rule exI)
next
  assume "\<exists>x. {c. P c} = {x}"
  then obtain x where x: "{c. P c} = {x}" by (elim exE)
  have mem: "P y \<longleftrightarrow> y = x" for y
  proof -
    have "y \<in> {c. P c} \<longleftrightarrow> y \<in> {x}" by (simp only: x)
    then show ?thesis by (unfold mem_Collect_eq singleton_iff)
  qed
  show "\<exists>!c. P c"
  proof (rule ex1I)
    show "P x" by (simp only: mem)
  next
    fix y assume "P y"
    then show "y = x" by (simp only: mem)
  qed
qed

lemma card_one_unique: "card {c. P c} = 1 \<longleftrightarrow> (\<exists>!c. P c)"
  by (simp only: ex1_singleton is_singleton_altdef [symmetric] is_singleton_def)

lemma length_one_singleton: "length xs = 1 \<Longrightarrow> \<exists>c. xs = [c]"
  by (cases xs) simp_all

lemma resolve_scores_zero:
  assumes "Max (range sc) = 0"
  shows "resolve_scores sc = (STANDARD, 0)"
  using assms by (simp only: resolve_scores_unfold simp_thms if_True)

lemma resolve_scores_unique:
  assumes nz: "Max (range sc) \<noteq> 0" and u: "\<exists>!c. sc c = Max (range sc)"
  shows "\<exists>c. sc c = Max (range sc) \<and>
             resolve_scores sc = (c, min 1 (real_of_int (Max (range sc)) / 10))"
proof -
  let ?m = "Max (range sc)"
  let ?cs = "filter (\<lambda>t. sc t = ?m) score_keys"
  have card1: "card {c. sc c = ?m} = 1"
    using u by (simp only: card_one_unique)
  then have "length ?cs = 1" by (simp only: candidates_length)
  then obtain c where cs: "?cs = [c]"
    using length_one_singleton by blast
  have "c \<in> set ?cs" by (simp only: cs list.set_intros)
  then have c: "sc c = ?m" by (simp only: candidates_mem)
  have "resolve_scores sc = (hd ?cs, min 1 (real_of_int ?m / 10))"
    using nz card1 by (simp only: resolve_scores_unfold simp_thms if_False if_True)
  then have "resolve_scores sc = (c, min 1 (real_of_int ?m / 10))"
    by (simp only: cs list.sel)
  with c show ?thesis by blast
qed

lemma resolve_scores_tie:
  assumes nz: "Max (range sc) \<noteq> 0" and nu: "\<not> (\<exists>!c. sc c = Max (range sc))"
  shows "\<exists>pre c post. priorities = pre @ c # post \<and> sc c = Max (range sc) \<and>
             (\<forall>p \<in> set pre. sc p \<noteq> Max (range sc)) \<and>
             resolve_scores sc = (c, min (7 / 10) (real_of_int (Max (range sc)) / 10))"
proof -
  let ?m = "Max (range sc)"
  have card1: "card {c. sc c = ?m} \<noteq> 1"
    using nu by (simp only: card_one_unique not_False_eq_True)
  obtain c0 where "sc c0 = ?m" using max_attained by blast
  moreover have "c0 \<in> set priorities" by (simp only: set_priorities UNIV_I)
  ultimately have ex: "\<exists>x \<in> set priorities. sc x = ?m" by (intro bexI [of _ c0])
  obtain c where f: "find (\<lambda>p. sc p = ?m) priorities = Some c"
    using find_some [of priorities "\<lambda>p. sc p = ?m", OF ex] by (rule exE)
  have r: "resolve_scores sc = (c, min (7 / 10) (real_of_int ?m / 10))"
    using nz card1 f by (simp only: resolve_scores_unfold simp_thms if_False option.case)
  obtain pre post where pp: "priorities = pre @ c # post" "sc c = ?m"
      "\<forall>p \<in> set pre. sc p \<noteq> ?m"
    using find_first [OF f] by (elim exE conjE)
  show ?thesis
    by (intro exI [of _ pre] exI [of _ c] exI [of _ post] conjI pp r)
qed

text \<open>
  Claim C1.  Let \<open>m\<close> be the highest of the seven scores of a record.  If \<open>m = 0\<close>
  the result is \<open>(STANDARD, 0.0)\<close>.  If exactly one category has score \<open>m\<close>, the
  result is that category with confidence \<open>min(1.0, m / 10.0)\<close>.  If several categories
  have score \<open>m\<close>, the result is the first of them in the order
  \<open>POSSIBLE_OFFICIAL, ENTERPRISE, MOBILE_HOTSPOT, PUBLIC, IOT, ISP_PROVIDED, STANDARD\<close>
  with confidence \<open>min(0.7, m / 10.0)\<close>, which is at most \<open>0.7\<close>.
\<close>

theorem classify_network_resolution:
  assumes sc: "sc = score_network upper network_data" and m: "m = Max (range sc)"
  shows "(m = 0 \<longrightarrow> classify_network upper network_data = (STANDARD, 0))
       \<and> (m \<noteq> 0 \<and> (\<exists>!c. sc c = m) \<longrightarrow>
            (\<exists>c. sc c = m \<and> classify_network upper network_data = (c, min 1 (real_of_int m / 10))))
       \<and> (m \<noteq> 0 \<and> \<not> (\<exists>!c. sc c = m) \<longrightarrow>
            (\<exists>pre c post.
                [POSSIBLE_OFFICIAL, ENTERPRISE, MOBILE_HOTSPOT, PUBLIC, IOT, ISP_PROVIDED, STANDARD]
                  = pre @ c # post
                \<and> sc c = m \<and> (\<forall>p \<in> set pre. sc p \<noteq> m)
                \<and> classify_network upper network_data = (c, min (7 / 10) (real_of_int m / 10))
                \<and> snd (classify_network upper network_data) \<le> 7 / 10))"
proof (intro conjI impI)
  assume "m = 0"
  then show "classify_network upper network_data = (STANDARD, 0)"
    using resolve_scores_zero [of sc] by (simp only: classify_network_def sc m)
next
  assume "m \<noteq> 0 \<and> (\<exists>!c. sc c = m)"
  then show "\<exists>c. sc c = m \<and> classify_network upper network_data = (c, min 1 (real_of_int m / 10))"
    using resolve_scores_unique [of sc] by (simp add: classify_network_def sc m)
next
  assume a: "m \<noteq> 0 \<and> \<not> (\<exists>!c. sc c = m)"
  then obtain pre c post where t: "priorities = pre @ c # post" "sc c = m"
      "\<forall>p \<in> set pre. sc p \<noteq> m"
      "resolve_scores sc = (c, min (7 / 10) (real_of_int m / 10))"
    using resolve_scores_tie [of sc] unfolding m by blast
  have le: "snd (classify_network upper network_data) \<le> 7 / 10"
    using t(4) by (simp add: classify_network_def sc [symmetric])
  have cl: "classify_network upper network_data = (c, min (7 / 10) (real_of_int m / 10))"
    using t(4) by (simp only: classify_network_def sc [symmetric])
  show "\<exists>pre c post.
          [POSSIBLE_OFFICIAL, ENTERPRISE, MOBILE_HOTSPOT, PUBLIC, IOT, ISP_PROVIDED, STANDARD]
            = pre @ c # post
          \<and> sc c = m \<and> (\<forall>p \<in> set pre. sc p \<noteq> m)
          \<and> classify_network upper network_data = (c, min (7 / 10) (real_of_int m / 10))
          \<and> snd (classify_network upper network_data) \<le> 7 / 10"
    using t(1) t(2) t(3) cl le unfolding priorities_def by blast
qed

lemma score_ex_tie:
  "score_network ascii_upper ex_tie c = (if c = ENTERPRISE \<or> c = PUBLIC then 4 else 0)"
proof -
  have "score_network ascii_upper ex_tie POSSIBLE_OFFICIAL = 0" by code_simp
  moreover have "score_network ascii_upper ex_tie ENTERPRISE = 4" by code_simp
  moreover have "score_network ascii_upper ex_tie MOBILE_HOTSPOT = 0" by code_simp
  moreover have "score_network ascii_upper ex_tie PUBLIC = 4" by code_simp
  moreover have "score_network ascii_upper ex_tie IOT = 0" by code_simp
  moreover have "score_network ascii_upper ex_tie ISP_PROVIDED = 0" by code_simp
  moreover have "score_network ascii_upper ex_tie STANDARD = 0" by code_simp
  ultimately show ?thesis by (cases c) simp_all
qed

lemma find_first_conv:
  assumes "xs = pre @ c # post" and "\<forall>p \<in> set pre. \<not> P p" and "P c"
  shows "find P xs = Some c"
  unfolding assms(1) using assms(2,3) by (induction pre) simp_all

lemma max_ex_tie: "Max (range (score_network ascii_upper ex_tie)) = 4"
proof (rule Max_eqI)
  show "finite (range (score_network ascii_upper ex_tie))" by (rule finite_range_scores)
  show "y \<le> 4" if "y \<in> range (score_network ascii_upper ex_tie)" for y
    using that by (auto simp: score_ex_tie)
  have "score_network ascii_upper ex_tie ENTERPRISE = 4" by (simp add: score_ex_tie)
  then show "4 \<in> range (score_network ascii_upper ex_tie)" by (metis rangeI)
qed

theorem classify_network_resolution_witness:
  "Max (range (score_network ascii_upper ex_tie)) = 4
   \<and> score_network ascii_upper ex_tie ENTERPRISE = 4 \<and> score_network ascii_upper ex_tie PUBLIC = 4
   \<and> classify_network ascii_upper ex_tie = (ENTERPRISE, 4 / 10)"
proof -
  let ?sc = "score_network ascii_upper ex_tie"
  have e: "?sc ENTERPRISE = 4" and p: "?sc PUBLIC = 4"
    by (simp_all add: score_ex_tie)
  have nz: "(4::int) \<noteq> 0" by simp
  have nu: "\<not> (\<exists>!c. ?sc c = 4)"
  proof
    assume "\<exists>!c. ?sc c = 4"
    with e p have "ENTERPRISE = PUBLIC" by (elim ex1E) metis
    then show False by simp
  qed
  from classify_network_resolution [OF refl max_ex_tie [symmetric], of ] nz nu
  obtain pre c post where t:
      "[POSSIBLE_OFFICIAL, ENTERPRISE, MOBILE_HOTSPOT, PUBLIC, IOT, ISP_PROVIDED, STANDARD]
         = pre @ c # post"
      "?sc c = 4" "\<forall>p \<in> set pre. ?sc p \<noteq> 4"
      "classify_network ascii_upper ex_tie = (c, min (7 / 10) (real_of_int 4 / 10))"
    by blast
  have "find (\<lambda>p. ?sc p = 4)
          [POSSIBLE_OFFICIAL, ENTERPRISE, MOBILE_HOTSPOT, PUBLIC, IOT, ISP_PROVIDED, STANDARD]
        = Some c"
    using t(1) t(3) t(2) by (rule find_first_conv [where P = "\<lambda>p. ?sc p = 4"])
  then have "c = ENTERPRISE" by (simp add: score_ex_tie)
  with t(4) have "classify_network ascii_upper ex_tie = (ENTERPRISE, 4 / 10)" by simp
  with max_ex_tie e p show ?thesis by blast
qed

section \<open>Properties of the signal analyzer\<close>

lemma py_min_total: "xs \<noteq> [] \<Longrightarrow> \<exists>v. py_min xs = Inr v"
  by (cases xs) simp_all

lemma py_max_total: "xs \<noteq> [] \<Longrightarrow> \<exists>v. py_max xs = Inr v"
  by (cases xs) simp_all

lemma analyze_full:
  assumes "3 \<le> length signals"
  shows "\<exists>r. analyze_signal_stability fp signals = Inr r
           \<and> rp_stability r = stability_of (np_std fp (map snd signals))
           \<and> rp_std_dev r = round2 fp (np_std fp (map snd signals))
           \<and> rp_trend r = trend_of fp (map snd signals)"
proof -
  from assms have ne: "map snd signals \<noteq> []" by auto
  obtain lo where lo: "py_min (map snd signals) = Inr lo"
    using py_min_total [OF ne] by blast
  obtain hi where hi: "py_max (map snd signals) = Inr hi"
    using py_max_total [OF ne] by blast
  from assms have g: "\<not> (signals = [] \<or> length signals < 3)" by auto
  show ?thesis
    using g by (simp add: analyze_signal_stability_def lo hi Let_def)
qed

lemma sqrt_less_iff: "0 \<le> c \<Longrightarrow> sqrt x < c \<longleftrightarrow> x < c\<^sup>2"
  by (metis real_sqrt_less_iff real_sqrt_abs abs_of_nonneg)

lemma sqrt_gt_iff: "0 \<le> c \<Longrightarrow> c < sqrt x \<longleftrightarrow> c\<^sup>2 < x"
  by (metis real_sqrt_less_iff real_sqrt_abs abs_of_nonneg)

lemma population_variance_example:
  "population_variance [- 50, - 51, - 49, - 50, - 52] = 26 / 25"
  by (simp add: population_variance_def exact_mean_def power2_eq_square)

lemma population_std_example_bounds:
  "10198 / 10000 < population_std [- 50, - 51, - 49, - 50, - 52]"
  "population_std [- 50, - 51, - 49, - 50, - 52] < 10199 / 10000"
proof -
  show "10198 / 10000 < population_std [- 50, - 51, - 49, - 50, - 52]"
    using sqrt_gt_iff [of "10198 / 10000" "26 / 25"]
    by (simp add: population_std_def population_variance_example power2_eq_square)
  show "population_std [- 50, - 51, - 49, - 50, - 52] < 10199 / 10000"
    using sqrt_less_iff [of "10199 / 10000" "26 / 25"]
    by (simp add: population_std_def population_variance_example power2_eq_square)
qed

text \<open>
  Claim C9.  For fewer than three samples (the empty sequence included) the analyzer
  raises nothing: it returns the short report, whose stability is \<open>Unknown\<close>.
\<close>

theorem analyze_insufficient_data:
  assumes "length signals < 3"
  shows "analyze_signal_stability fp signals =
           Inr \<lparr>rp_stability = ''Unknown'', rp_std_dev = 0, rp_mean = None, rp_median = None,
                rp_min = None, rp_max = None, rp_range = 0, rp_trend = ''Unknown''\<rparr>"
  using assms by (simp add: analyze_signal_stability_def)

theorem analyze_insufficient_data_witness:
  "length [(0 :: real, - 50 :: int), (1, - 51)] < 3
   \<and> analyze_signal_stability exact_ops [(0, - 50), (1, - 51)] =
        Inr \<lparr>rp_stability = ''Unknown'', rp_std_dev = 0, rp_mean = None, rp_median = None,
             rp_min = None, rp_max = None, rp_range = 0, rp_trend = ''Unknown''\<rparr>
   \<and> analyze_signal_stability exact_ops [] =
        Inr \<lparr>rp_stability = ''Unknown'', rp_std_dev = 0, rp_mean = None, rp_median = None,
             rp_min = None, rp_max = None, rp_range = 0, rp_trend = ''Unknown''\<rparr>"
  using analyze_insufficient_data [of "[(0, - 50), (1, - 51)]" exact_ops]
    analyze_insufficient_data [of "[]" exact_ops]
  by simp

text \<open>
  Claim C8, amended.  For at least three samples the analyzer returns a report whose
  stability is read off the double that \<open>np.std\<close> returns for the signal values: below
  2 \<open>Very Stable\<close>, below 5 \<open>Stable\<close>, below 10 \<open>Moderately Stable\<close>, otherwise
  \<open>Unstable\<close>.  The population standard deviation of \<open>[-50, -51, -49, -50, -52]\<close> is
  the square root of \<open>1.04\<close>, between 1.0198 and 1.0199; where \<open>np.std\<close> returns a
  double within \<open>0.001\<close> of it, that double lies between 1.018 and 1.021 and the band is
  \<open>Very Stable\<close>.
\<close>

theorem stability_band:
  assumes "3 \<le> length signals"
  shows "(\<exists>r. analyze_signal_stability fp signals = Inr r \<and>
            rp_stability r =
              (if np_std fp (map snd signals) < 2 then ''Very Stable''
               else if np_std fp (map snd signals) < 5 then ''Stable''
               else if np_std fp (map snd signals) < 10 then ''Moderately Stable''
               else ''Unstable''))
       \<and> (map snd signals = [- 50, - 51, - 49, - 50, - 52]
          \<and> \<bar>np_std fp [- 50, - 51, - 49, - 50, - 52]
               - population_std [- 50, - 51, - 49, - 50, - 52]\<bar> \<le> 1 / 1000 \<longrightarrow>
            (population_std [- 50, - 51, - 49, - 50, - 52])\<^sup>2 = 26 / 25
            \<and> 1018 / 1000 < np_std fp (map snd signals)
            \<and> np_std fp (map snd signals) < 1021 / 1000
            \<and> (\<exists>r. analyze_signal_stability fp signals = Inr r
                  \<and> rp_stability r = ''Very Stable''))"
proof -
  obtain r where r: "analyze_signal_stability fp signals = Inr r"
      "rp_stability r = stability_of (np_std fp (map snd signals))"
    using analyze_full [OF assms] by blast
  have gen: "\<exists>r. analyze_signal_stability fp signals = Inr r \<and>
            rp_stability r =
              (if np_std fp (map snd signals) < 2 then ''Very Stable''
               else if np_std fp (map snd signals) < 5 then ''Stable''
               else if np_std fp (map snd signals) < 10 then ''Moderately Stable''
               else ''Unstable'')"
    using r(1) r(2) unfolding stability_of_def by blast
  have ex: "(population_std [- 50, - 51, - 49, - 50, - 52])\<^sup>2 = 26 / 25
            \<and> 1018 / 1000 < np_std fp (map snd signals)
            \<and> np_std fp (map snd signals) < 1021 / 1000
            \<and> (\<exists>r. analyze_signal_stability fp signals = Inr r
                  \<and> rp_stability r = ''Very Stable'')"
    if v: "map snd signals = [- 50, - 51, - 49, - 50, - 52]"
      and close: "\<bar>np_std fp [- 50, - 51, - 49, - 50, - 52]
               - population_std [- 50, - 51, - 49, - 50, - 52]\<bar> \<le> 1 / 1000"
  proof -
    have sq: "(population_std [- 50, - 51, - 49, - 50, - 52])\<^sup>2 = 26 / 25"
      by (simp add: population_std_def population_variance_example)
    have b: "1018 / 1000 < np_std fp (map snd signals)"
        "np_std fp (map snd signals) < 1021 / 1000"
      unfolding v using close population_std_example_bounds by linarith+
    from b(2) have "rp_stability r = ''Very Stable''"
      by (simp add: r(2) stability_of_def)
    with sq b r(1) show ?thesis by blast
  qed
  have imp: "map snd signals = [- 50, - 51, - 49, - 50, - 52]
          \<and> \<bar>np_std fp [- 50, - 51, - 49, - 50, - 52]
               - population_std [- 50, - 51, - 49, - 50, - 52]\<bar> \<le> 1 / 1000 \<longrightarrow>
            (population_std [- 50, - 51, - 49, - 50, - 52])\<^sup>2 = 26 / 25
            \<and> 1018 / 1000 < np_std fp (map snd signals)
            \<and> np_std fp (map snd signals) < 1021 / 1000
            \<and> (\<exists>r. analyze_signal_stability fp signals = Inr r
                  \<and> rp_stability r = ''Very Stable'')"
  proof (rule impI)
    assume h: "map snd signals = [- 50, - 51, - 49, - 50, - 52]
          \<and> \<bar>np_std fp [- 50, - 51, - 49, - 50, - 52]
               - population_std [- 50, - 51, - 49, - 50, - 52]\<bar> \<le> 1 / 1000"
    show "(population_std [- 50, - 51, - 49, - 50, - 52])\<^sup>2 = 26 / 25
            \<and> 1018 / 1000 < np_std fp (map snd signals)
            \<and> np_std fp (map snd signals) < 1021 / 1000
            \<and> (\<exists>r. analyze_signal_stability fp signals = Inr r
                  \<and> rp_stability r = ''Very Stable'')"
      by (rule ex [OF conjunct1 [OF h] conjunct2 [OF h]])
  qed
  from gen imp show ?thesis by (rule conjI)
qed

theorem stability_band_witness:
  "3 \<le> length ex_stable_samples
   \<and> map snd ex_stable_samples = [- 50, - 51, - 49, - 50, - 52]
   \<and> \<bar>np_std exact_ops [- 50, - 51, - 49, - 50, - 52]
        - population_std [- 50, - 51, - 49, - 50, - 52]\<bar> \<le> 1 / 1000
   \<and> (\<exists>r. analyze_signal_stability exact_ops ex_stable_samples = Inr r
          \<and> rp_stability r = ''Very Stable'')"
  using stability_band [where signals = ex_stable_samples and fp = exact_ops]
  by (simp add: ex_stable_samples_def exact_ops_def)

text \<open>
  The claim as stated gives the standard deviation of these values as about 1.17; it is
  below 1.02.
\<close>

theorem std_dev_of_example_counterexample:
  "(population_std [- 50, - 51, - 49, - 50, - 52])\<^sup>2 = 26 / 25
   \<and> population_std [- 50, - 51, - 49, - 50, - 52] < 102 / 100"
  using population_std_example_bounds(2)
  by (simp add: population_std_def population_variance_example)

text \<open>
  Claim C7, amended.  With at least ten samples the values are split at
  \<open>len // 2\<close> and \<open>np.mean\<close> is taken of each half; the trend is \<open>Improving\<close> if
  the float difference of the second mean and the first is greater than 3,
  \<open>Deteriorating\<close> if not and the float difference of the first mean and the second is
  greater than 3, and \<open>Stable\<close> otherwise.  With three to nine samples the trend is
  \<open>Insufficient Data\<close>; with fewer than three the short report is returned and its
  trend is \<open>Unknown\<close>.  For the ten values
  \<open>[-50, -50, -50, -50, -50, -60, -60, -60, -60, -60]\<close>, where the two means are the
  doubles \<open>-50\<close> and \<open>-60\<close> and their differences \<open>10\<close> and \<open>-10\<close>, the trend is
  \<open>Deteriorating\<close>.
\<close>

theorem trend_rule:
  assumes "vs = map snd signals"
    and "first_half = take (length vs div 2) vs"
    and "second_half = drop (length vs div 2) vs"
    and "first_mean = np_mean fp first_half"
    and "second_mean = np_mean fp second_half"
  shows "(10 \<le> length signals \<longrightarrow>
            (\<exists>r. analyze_signal_stability fp signals = Inr r \<and>
                 rp_trend r =
                   (if float_sub fp second_mean first_mean > 3 then ''Improving''
                    else if float_sub fp first_mean second_mean > 3 then ''Deteriorating''
                    else ''Stable'')))
       \<and> (3 \<le> length signals \<and> length signals < 10 \<longrightarrow>
            (\<exists>r. analyze_signal_stability fp signals = Inr r \<and> rp_trend r = ''Insufficient Data''))
       \<and> (length signals < 3 \<longrightarrow>
            (\<exists>r. analyze_signal_stability fp signals = Inr r \<and> rp_trend r = ''Unknown''))
       \<and> (vs = [- 50, - 50, - 50, - 50, - 50, - 60, - 60, - 60, - 60, - 60]
          \<and> np_mean fp [- 50, - 50, - 50, - 50, - 50] = - 50
          \<and> np_mean fp [- 60, - 60, - 60, - 60, - 60] = - 60
          \<and> float_sub fp (- 60) (- 50) = - 10 \<and> float_sub fp (- 50) (- 60) = 10 \<longrightarrow>
            (\<exists>r. analyze_signal_stability fp signals = Inr r \<and> rp_trend r = ''Deteriorating''))"
proof -
  have tr: "trend_of fp vs =
     (if 10 \<le> length vs then
        (if float_sub fp second_mean first_mean > 3 then ''Improving''
         else if float_sub fp first_mean second_mean > 3 then ''Deteriorating''
         else ''Stable'')
      else ''Insufficient Data'')"
    unfolding trend_of_def Let_def assms(2-5) ..
  have len: "length vs = length signals" by (simp add: assms(1))
  have full: "\<exists>r. analyze_signal_stability fp signals = Inr r \<and> rp_trend r = trend_of fp vs"
    if "3 \<le> length signals"
    using analyze_full [OF that, of fp] unfolding assms(1) by blast
  have a: "\<exists>r. analyze_signal_stability fp signals = Inr r \<and>
                 rp_trend r =
                   (if float_sub fp second_mean first_mean > 3 then ''Improving''
                    else if float_sub fp first_mean second_mean > 3 then ''Deteriorating''
                    else ''Stable'')"
    if "10 \<le> length signals"
    using full that by (simp add: tr len)
  have b: "\<exists>r. analyze_signal_stability fp signals = Inr r \<and> rp_trend r = ''Insufficient Data''"
    if "3 \<le> length signals \<and> length signals < 10"
    using full that by (simp add: tr len)
  have c: "\<exists>r. analyze_signal_stability fp signals = Inr r \<and> rp_trend r = ''Unknown''"
    if "length signals < 3"
    using that by (simp add: analyze_signal_stability_def)
  have d: "\<exists>r. analyze_signal_stability fp signals = Inr r \<and> rp_trend r = ''Deteriorating''"
    if v: "vs = [- 50, - 50, - 50, - 50, - 50, - 60, - 60, - 60, - 60, - 60]"
      and m1: "np_mean fp [- 50, - 50, - 50, - 50, - 50] = - 50"
      and m2: "np_mean fp [- 60, - 60, - 60, - 60, - 60] = - 60"
      and s1: "float_sub fp (- 60) (- 50) = - 10"
      and s2: "float_sub fp (- 50) (- 60) = 10"
  proof -
    have l: "length signals = 10" using len v by simp
    have "trend_of fp vs = ''Deteriorating''"
      unfolding v by (simp add: trend_of_def m1 m2 s1 s2)
    with full l show ?thesis by simp
  qed
  from a b c d show ?thesis by blast
qed

theorem trend_rule_witness:
  "10 \<le> length ex_falling_samples
   \<and> map snd ex_falling_samples = [- 50, - 50, - 50, - 50, - 50, - 60, - 60, - 60, - 60, - 60]
   \<and> np_mean exact_ops [- 50, - 50, - 50, - 50, - 50] = - 50
   \<and> np_mean exact_ops [- 60, - 60, - 60, - 60, - 60] = - 60
   \<and> float_sub exact_ops (- 60) (- 50) = - 10 \<and> float_sub exact_ops (- 50) (- 60) = 10
   \<and> (\<exists>r. analyze_signal_stability exact_ops ex_falling_samples = Inr r
          \<and> rp_trend r = ''Deteriorating'')
   \<and> 3 \<le> length ex_stable_samples \<and> length ex_stable_samples < 10
   \<and> (\<exists>r. analyze_signal_stability exact_ops ex_stable_samples = Inr r
          \<and> rp_trend r = ''Insufficient Data'')"
  using trend_rule [where signals = ex_falling_samples and fp = exact_ops, OF refl refl refl refl refl]
    trend_rule [where signals = ex_stable_samples and fp = exact_ops, OF refl refl refl refl refl]
  by (simp add: ex_falling_samples_def ex_stable_samples_def exact_ops_def exact_mean_def)

text \<open>
  The claim as stated gives \<open>Insufficient Data\<close> for every sequence of fewer than ten
  samples; for two samples the trend is \<open>Unknown\<close>.
\<close>

theorem short_sequence_trend_counterexample:
  "analyze_signal_stability exact_ops [(0, - 50), (1, - 60)] =
     Inr \<lparr>rp_stability = ''Unknown'', rp_std_dev = 0, rp_mean = None, rp_median = None,
          rp_min = None, rp_max = None, rp_range = 0, rp_trend = ''Unknown''\<rparr>
   \<and> ''Unknown'' \<noteq> ''Insufficient Data''"
  by (simp add: analyze_signal_stability_def)

section \<open>Beacons of a known station\<close>

lemma sa_process_beacon_known:
  assumes "sa_networks sa (bc_bssid pkt) = Some m"
    and "signal_history sa (bc_bssid pkt) = Some h"
  shows "sa_process_beacon pkt sa =
           Inr \<lparr>sa_networks = (sa_networks sa)(bc_bssid pkt \<mapsto>
                   m\<lparr>sa_last_seen := Some (bc_time pkt),
                     sa_signals := sa_signals m @ [(bc_time pkt, get_signal_strength (bc_signal pkt))]\<rparr>),
                signal_history = (signal_history sa)(bc_bssid pkt \<mapsto>
                   h @ [(bc_time pkt, get_signal_strength (bc_signal pkt))])\<rparr>"
  using assms by (simp add: sa_process_beacon_def Let_def dom_def)

text \<open>
  Claim C4, amended.  For a station that already has a record, a beacon makes the scanner
  overwrite \<open>signal\<close> with the newest level and set \<open>last_seen\<close>; \<open>ssid\<close>,
  \<open>channel\<close>, \<open>encryption\<close>, \<open>manufacturer\<close>, \<open>first_seen\<close>, \<open>hidden\<close> and
  \<open>type\<close> stay as they were, and so does \<open>hidden_networks\<close>.  The signal analyzer
  appends the pair (timestamp, signal) to the station's samples and to its signal history
  and sets \<open>last_seen\<close>, leaving \<open>ssid\<close> and \<open>first_seen\<close>; processing the same
  beacon twice with the same timestamp appends the pair twice and still leaves
  \<open>ssid\<close> and \<open>first_seen\<close>.
\<close>

theorem known_station_beacon:
  assumes n: "networks st (bc_bssid pkt) = Some n"
    and m: "sa_networks sa (bc_bssid pkt) = Some m"
    and h: "signal_history sa (bc_bssid pkt) = Some h"
    and x: "x = (bc_time pkt, get_signal_strength (bc_signal pkt))"
  shows "(\<exists>n'. networks (process_beacon upper pkt st) (bc_bssid pkt) = Some n'
            \<and> signal n' = get_signal_strength (bc_signal pkt) \<and> last_seen n' = bc_time pkt
            \<and> ssid n' = ssid n \<and> bssid n' = bssid n \<and> channel n' = channel n
            \<and> encryption n' = encryption n \<and> manufacturer n' = manufacturer n
            \<and> first_seen n' = first_seen n \<and> hidden n' = hidden n \<and> net_type n' = net_type n)
       \<and> hidden_networks (process_beacon upper pkt st) = hidden_networks st
       \<and> (\<exists>sa1 m1. sa_process_beacon pkt sa = Inr sa1
            \<and> sa_networks sa1 (bc_bssid pkt) = Some m1
            \<and> sa_signals m1 = sa_signals m @ [x] \<and> sa_last_seen m1 = Some (bc_time pkt)
            \<and> sa_ssid m1 = sa_ssid m \<and> sa_first_seen m1 = sa_first_seen m
            \<and> signal_history sa1 (bc_bssid pkt) = Some (h @ [x])
            \<and> (\<exists>sa2 m2. sa_process_beacon pkt sa1 = Inr sa2
                 \<and> sa_networks sa2 (bc_bssid pkt) = Some m2
                 \<and> sa_signals m2 = sa_signals m @ [x, x]
                 \<and> sa_ssid m2 = sa_ssid m \<and> sa_first_seen m2 = sa_first_seen m
                 \<and> signal_history sa2 (bc_bssid pkt) = Some (h @ [x, x])))"
proof -
  let ?b = "bc_bssid pkt"
  have s1: "\<exists>n'. networks (process_beacon upper pkt st) ?b = Some n'
            \<and> signal n' = get_signal_strength (bc_signal pkt) \<and> last_seen n' = bc_time pkt
            \<and> ssid n' = ssid n \<and> bssid n' = bssid n \<and> channel n' = channel n
            \<and> encryption n' = encryption n \<and> manufacturer n' = manufacturer n
            \<and> first_seen n' = first_seen n \<and> hidden n' = hidden n \<and> net_type n' = net_type n"
    using n by (simp add: process_beacon_def Let_def)
  have s2: "hidden_networks (process_beacon upper pkt st) = hidden_networks st"
    using n by (simp add: process_beacon_def Let_def)
  let ?m1 = "m\<lparr>sa_last_seen := Some (bc_time pkt), sa_signals := sa_signals m @ [x]\<rparr>"
  let ?sa1 = "\<lparr>sa_networks = (sa_networks sa)(?b \<mapsto> ?m1),
               signal_history = (signal_history sa)(?b \<mapsto> h @ [x])\<rparr>"
  let ?m2 = "?m1\<lparr>sa_last_seen := Some (bc_time pkt), sa_signals := sa_signals ?m1 @ [x]\<rparr>"
  let ?sa2 = "\<lparr>sa_networks = (sa_networks ?sa1)(?b \<mapsto> ?m2),
               signal_history = (signal_history ?sa1)(?b \<mapsto> (h @ [x]) @ [x])\<rparr>"
  have a1: "sa_process_beacon pkt sa = Inr ?sa1"
    unfolding x by (rule sa_process_beacon_known [OF m h])
  have a2: "sa_process_beacon pkt ?sa1 = Inr ?sa2"
    unfolding x by (rule sa_process_beacon_known) simp_all
  have second: "\<exists>sa2 m2. sa_process_beacon pkt ?sa1 = Inr sa2
                 \<and> sa_networks sa2 ?b = Some m2
                 \<and> sa_signals m2 = sa_signals m @ [x, x]
                 \<and> sa_ssid m2 = sa_ssid m \<and> sa_first_seen m2 = sa_first_seen m
                 \<and> signal_history sa2 ?b = Some (h @ [x, x])"
    by (rule exI [of _ ?sa2], rule exI [of _ ?m2]) (simp add: a2)
  have first: "\<exists>sa1 m1. sa_process_beacon pkt sa = Inr sa1
            \<and> sa_networks sa1 ?b = Some m1
            \<and> sa_signals m1 = sa_signals m @ [x] \<and> sa_last_seen m1 = Some (bc_time pkt)
            \<and> sa_ssid m1 = sa_ssid m \<and> sa_first_seen m1 = sa_first_seen m
            \<and> signal_history sa1 ?b = Some (h @ [x])
            \<and> (\<exists>sa2 m2. sa_process_beacon pkt sa1 = Inr sa2
                 \<and> sa_networks sa2 ?b = Some m2
                 \<and> sa_signals m2 = sa_signals m @ [x, x]
                 \<and> sa_ssid m2 = sa_ssid m \<and> sa_first_seen m2 = sa_first_seen m
                 \<and> signal_history sa2 ?b = Some (h @ [x, x]))"
    by (rule exI [of _ ?sa1], rule exI [of _ ?m1], intro conjI) (rule a1 second | simp)+
  from s1 s2 first show ?thesis by (intro conjI)
qed

theorem known_station_beacon_witness:
  "networks (sniff ascii_upper [Beacon ex_hidden_beacon] init_state) (bc_bssid ex_later_beacon) \<noteq> None
   \<and> sa_process_beacon ex_hidden_beacon sa_init = Inr ex_sa_state
   \<and> map_option channel (networks (process_beacon ascii_upper ex_later_beacon
          (sniff ascii_upper [Beacon ex_hidden_beacon] init_state)) ''AA:1'') = Some 6
   \<and> map_option signal (networks (process_beacon ascii_upper ex_later_beacon
          (sniff ascii_upper [Beacon ex_hidden_beacon] init_state)) ''AA:1'') = Some (- 70)
   \<and> map_option last_seen (networks (process_beacon ascii_upper ex_later_beacon
          (sniff ascii_upper [Beacon ex_hidden_beacon] init_state)) ''AA:1'') = Some 110
   \<and> (\<exists>sa1 sa2 m2. sa_process_beacon ex_later_beacon ex_sa_state = Inr sa1
          \<and> sa_process_beacon ex_later_beacon sa1 = Inr sa2
          \<and> sa_networks sa2 ''AA:1'' = Some m2
          \<and> sa_signals m2 = [(100, - 55), (110, - 70), (110, - 70)]
          \<and> sa_first_seen m2 = 100 \<and> sa_ssid m2 = ''[Hidden Network]'')"
proof -
  let ?st = "sniff ascii_upper [Beacon ex_hidden_beacon] init_state"
  obtain n where n: "networks ?st (bc_bssid ex_later_beacon) = Some n"
      and nf: "channel n = 6"
    by (simp add: ex_defs)
  obtain m where m: "sa_networks ex_sa_state (bc_bssid ex_later_beacon) = Some m"
      and mf: "sa_signals m = [(100, - 55)]" "sa_first_seen m = 100"
        "sa_ssid m = ''[Hidden Network]''"
    by (simp add: ex_sa_state_def ex_later_beacon_def)
  have h: "signal_history ex_sa_state (bc_bssid ex_later_beacon) = Some [(100, - 55)]"
    by (simp add: ex_sa_state_def ex_later_beacon_def)
  have b: "bc_bssid ex_later_beacon = ''AA:1''" "bc_time ex_later_beacon = 110"
      "get_signal_strength (bc_signal ex_later_beacon) = - 70"
    by (simp_all add: ex_later_beacon_def get_signal_strength_def)
  have r: "sa_process_beacon ex_hidden_beacon sa_init = Inr ex_sa_state"
    by (simp add: sa_process_beacon_def sa_init_def ex_sa_state_def ex_hidden_beacon_def
          get_signal_strength_def hidden_name_def Let_def)
  from known_station_beacon [where upper = ascii_upper, OF n m h refl] n r show ?thesis
    unfolding b nf mf by (auto simp: b)
qed

text \<open>
  The claim as stated has the channel and the cipher suite overwritten by the newest
  values.  A second beacon of the station on channel 11 with open encryption leaves the
  record on channel 6 with \<open>WPA2\<close>.
\<close>

theorem beacon_update_keeps_channel_counterexample:
  "map_option channel (networks (sniff ascii_upper [Beacon ex_hidden_beacon, Beacon ex_later_beacon] init_state)
      ''AA:1'') = Some 6
   \<and> bc_channel ex_later_beacon = 11
   \<and> map_option encryption (networks (sniff ascii_upper [Beacon ex_hidden_beacon, Beacon ex_later_beacon] init_state)
      ''AA:1'') = Some ''WPA2''
   \<and> bc_encryption ex_later_beacon = ''Open''"
  by (simp add: ex_defs)

section \<open>The scores of a record\<close>

lemma add_score_apply: "add_score t k sc c = sc c + (if c = t then k else 0)"
  by (simp add: add_score_def)

lemma mfg_bonus_apply: "mfg_bonus t sc c = sc c + mfg_points t c"
  by (cases t) (simp_all add: mfg_bonus_def mfg_points_def add_score_apply)

lemma fold_keywords:
  assumes "\<And>sc c. f sc c = sc c + d c"
  shows "fold (\<lambda>k sc. if py_in k s then f sc else sc) ks sc c = sc c + matches ks s * d c"
proof (induction ks arbitrary: sc)
  case Nil
  show ?case by (simp add: matches_def)
next
  case (Cons k ks)
  show ?case
    using Cons.IH [of "if py_in k s then f sc else sc"]
    by (simp add: matches_def assms algebra_simps)
qed

lemma fold_network_types:
  "fold (\<lambda>(network_type, patterns).
           fold (\<lambda>pattern sc. if py_in pattern s then add_score network_type 4 sc else sc) patterns)
        tys sc c
   = sc c + (\<Sum>(t, ps) \<leftarrow> tys. matches ps s * (if c = t then 4 else 0))"
proof (induction tys arbitrary: sc)
  case Nil
  show ?case by simp
next
  case (Cons ty tys)
  obtain t ps where ty: "ty = (t, ps)" by (cases ty)
  have step: "fold (\<lambda>pattern sc. if py_in pattern s then add_score t 4 sc else sc) ps sc c
              = sc c + matches ps s * (if c = t then 4 else 0)" for sc
    by (rule fold_keywords) (rule add_score_apply)
  show ?case
    by (simp add: ty Cons.IH step)
qed

lemma fold_manufacturer_types:
  "fold (\<lambda>(mfg_type, mfg_list).
           fold (\<lambda>mfg sc. if py_in mfg s then mfg_bonus mfg_type sc else sc) mfg_list)
        tys sc c
   = sc c + (\<Sum>(t, ms) \<leftarrow> tys. matches ms s * mfg_points t c)"
proof (induction tys arbitrary: sc)
  case Nil
  show ?case by simp
next
  case (Cons ty tys)
  obtain t ms where ty: "ty = (t, ms)" by (cases ty)
  have step: "fold (\<lambda>mfg sc. if py_in mfg s then mfg_bonus t sc else sc) ms sc c
              = sc c + matches ms s * mfg_points t c" for sc
    by (rule fold_keywords) (rule mfg_bonus_apply)
  show ?case
    by (simp add: ty Cons.IH step)
qed

lemma network_types_sum:
  "(\<Sum>(t, ps) \<leftarrow> NETWORK_TYPES. matches ps s * (if c = t then 4 else 0))
   = 4 * matches (ssid_patterns c) s"
  by (cases c) (simp_all add: NETWORK_TYPES_def ssid_patterns_def matches_def)

lemma manufacturer_types_sum:
  "(\<Sum>(t, ms) \<leftarrow> MANUFACTURER_TYPES. matches ms s * mfg_points t c)
   = (case c of
        POSSIBLE_OFFICIAL \<Rightarrow> 4 * matches (mfg_list GOVERNMENT) s
      | ENTERPRISE \<Rightarrow> 3 * matches (mfg_list ENTERPRISE_VENDOR) s
      | MOBILE_HOTSPOT \<Rightarrow> 4 * matches (mfg_list MOBILE_VENDOR) s
      | PUBLIC \<Rightarrow> 0
      | IOT \<Rightarrow> 4 * matches (mfg_list IOT_VENDOR) s
      | ISP_PROVIDED \<Rightarrow> 1 * matches (mfg_list CONSUMER_VENDOR) s
      | STANDARD \<Rightarrow> 2 * matches (mfg_list CONSUMER_VENDOR) s)"
  by (cases c) (simp_all add: MANUFACTURER_TYPES_def mfg_list_def mfg_points_def)

lemma hidden_stage:
  "(if h then add_score ENTERPRISE 2 (add_score POSSIBLE_OFFICIAL 3 sc) else sc) c
   = sc c + (if h then (if c = POSSIBLE_OFFICIAL then 3 else if c = ENTERPRISE then 2 else 0) else 0)"
  by (simp add: add_score_apply)

lemma encryption_stage:
  "(if e = ''WPA2/WPA3''
    then add_score ISP_PROVIDED 1 (add_score ENTERPRISE 2 (add_score POSSIBLE_OFFICIAL 2 sc))
    else if e = ''Open'' then add_score PUBLIC 3 sc else sc) c
   = sc c + (if e = ''WPA2/WPA3''
             then (if c = POSSIBLE_OFFICIAL \<or> c = ENTERPRISE then 2
                   else if c = ISP_PROVIDED then 1 else 0)
             else if e = ''Open'' then (if c = PUBLIC then 3 else 0) else 0)"
  by (simp add: add_score_apply)

lemma signal_stage:
  "(if g > - 40 then add_score ISP_PROVIDED 1 (add_score STANDARD 1 sc)
    else if g < - 80 then add_score MOBILE_HOTSPOT 1 sc else sc) c
   = sc c + (if g > - 40 then (if c = STANDARD \<or> c = ISP_PROVIDED then 1 else 0)
             else if g < - 80 then (if c = MOBILE_HOTSPOT then 1 else 0) else 0)"
  by (simp add: add_score_apply)

text \<open>
  Claim C2, amended.  The score of a category is the sum of independent contributions,
  starting from 0: a hidden record gives 3 to \<open>POSSIBLE_OFFICIAL\<close> and 2 to
  \<open>ENTERPRISE\<close>; encryption \<open>WPA2/WPA3\<close> gives 2 to \<open>POSSIBLE_OFFICIAL\<close>, 2 to
  \<open>ENTERPRISE\<close> and 1 to \<open>ISP_PROVIDED\<close>, encryption \<open>Open\<close> gives 3 to
  \<open>PUBLIC\<close>; every keyword of a category's list that the name contains, once
  \<open>str.upper()\<close> has been applied to it, gives 4 to that category; every manufacturer
  keyword that the manufacturer string contains, once \<open>str.upper()\<close> has been
  applied to it, gives the increments of its class (government 4 to
  \<open>POSSIBLE_OFFICIAL\<close>, enterprise 3 to \<open>ENTERPRISE\<close>, consumer 2 to \<open>STANDARD\<close>
  and 1 to \<open>ISP_PROVIDED\<close>, mobile 4 to \<open>MOBILE_HOTSPOT\<close>, IoT 4 to \<open>IOT\<close>), once
  for each matching keyword; a signal above \<open>-40\<close> gives 1 to \<open>STANDARD\<close> and 1 to
  \<open>ISP_PROVIDED\<close>, a signal below \<open>-80\<close> gives 1 to \<open>MOBILE_HOTSPOT\<close>.
\<close>

theorem score_network_sum:
  assumes "name = upper (case nd_ssid network_data of Some s \<Rightarrow> s | None \<Rightarrow> [])"
    and "enc = (case nd_encryption network_data of Some e \<Rightarrow> e | None \<Rightarrow> ''Unknown'')"
    and "concealed = (case nd_hidden network_data of Some h \<Rightarrow> h | None \<Rightarrow> False)"
    and "vendor = upper (case nd_manufacturer network_data of Some m \<Rightarrow> m | None \<Rightarrow> ''Unknown'')"
    and "level = (case nd_signal network_data of Some v \<Rightarrow> v | None \<Rightarrow> - 100)"
  shows "score_network upper network_data c =
      (if concealed then (if c = POSSIBLE_OFFICIAL then 3 else if c = ENTERPRISE then 2 else 0)
       else 0)
    + (if enc = ''WPA2/WPA3''
       then (if c = POSSIBLE_OFFICIAL \<or> c = ENTERPRISE then 2
             else if c = ISP_PROVIDED then 1 else 0)
       else if enc = ''Open'' then (if c = PUBLIC then 3 else 0) else 0)
    + 4 * matches (ssid_patterns c) name
    + (case c of
         POSSIBLE_OFFICIAL \<Rightarrow> 4 * matches (mfg_list GOVERNMENT) vendor
       | ENTERPRISE \<Rightarrow> 3 * matches (mfg_list ENTERPRISE_VENDOR) vendor
       | MOBILE_HOTSPOT \<Rightarrow> 4 * matches (mfg_list MOBILE_VENDOR) vendor
       | PUBLIC \<Rightarrow> 0
       | IOT \<Rightarrow> 4 * matches (mfg_list IOT_VENDOR) vendor
       | ISP_PROVIDED \<Rightarrow> 1 * matches (mfg_list CONSUMER_VENDOR) vendor
       | STANDARD \<Rightarrow> 2 * matches (mfg_list CONSUMER_VENDOR) vendor)
    + (if level > - 40 then (if c = STANDARD \<or> c = ISP_PROVIDED then 1 else 0)
       else if level < - 80 then (if c = MOBILE_HOTSPOT then 1 else 0) else 0)"
  unfolding score_network_def Let_def assms [symmetric]
  by (simp only: signal_stage fold_manufacturer_types manufacturer_types_sum
        fold_network_types network_types_sum encryption_stage hidden_stage add_0)

theorem score_network_sum_witness:
  "matches (ssid_patterns ENTERPRISE) (ascii_upper ''lab'') = 0
   \<and> matches (mfg_list ENTERPRISE_VENDOR) (ascii_upper ''Cisco Aruba'') = 2
   \<and> score_network ascii_upper ex_two_vendors ENTERPRISE = 6
   \<and> matches (ssid_patterns ENTERPRISE) (ascii_upper ''Corp Guest'') = 1
   \<and> score_network ascii_upper ex_tie ENTERPRISE = 4"
proof -
  have m1: "matches (ssid_patterns ENTERPRISE) (ascii_upper ''lab'') = 0" by code_simp
  have m2: "matches (mfg_list ENTERPRISE_VENDOR) (ascii_upper ''Cisco Aruba'') = 2" by code_simp
  have m3: "matches (ssid_patterns ENTERPRISE) (ascii_upper ''Corp Guest'') = 1" by code_simp
  have m4: "matches (mfg_list ENTERPRISE_VENDOR) (ascii_upper ''Unknown'') = 0" by code_simp
  from score_network_sum [where upper = ascii_upper and network_data = ex_two_vendors
      and c = ENTERPRISE, OF refl refl refl refl refl]
    score_network_sum [where upper = ascii_upper and network_data = ex_tie
      and c = ENTERPRISE, OF refl refl refl refl refl] m1 m2 m3 m4
  show ?thesis by (simp add: ex_two_vendors_def ex_tie_def)
qed

text \<open>
  The claim as stated lets the vendor evidence of a record add the increments of one
  vendor class, once: at most 3 for \<open>ENTERPRISE\<close>.  A record whose only evidence is
  the manufacturer \<open>Cisco Aruba\<close> scores 6 for \<open>ENTERPRISE\<close>.
\<close>

theorem vendor_keywords_stack_counterexample:
  "score_network ascii_upper ex_two_vendors ENTERPRISE = 6
   \<and> score_network ascii_upper (ex_two_vendors\<lparr>nd_manufacturer := None\<rparr>) ENTERPRISE = 0
   \<and> claimed_vendor_points None ENTERPRISE = 0
   \<and> claimed_vendor_points (Some GOVERNMENT) ENTERPRISE = 0
   \<and> claimed_vendor_points (Some ENTERPRISE_VENDOR) ENTERPRISE = 3
   \<and> claimed_vendor_points (Some CONSUMER_VENDOR) ENTERPRISE = 0
   \<and> claimed_vendor_points (Some MOBILE_VENDOR) ENTERPRISE = 0
   \<and> claimed_vendor_points (Some IOT_VENDOR) ENTERPRISE = 0"
proof -
  have "score_network ascii_upper ex_two_vendors ENTERPRISE = 6" by code_simp
  moreover have "score_network ascii_upper (ex_two_vendors\<lparr>nd_manufacturer := None\<rparr>) ENTERPRISE = 0"
    by code_simp
  ultimately show ?thesis by (simp add: claimed_vendor_points_def mfg_points_def)
qed

end
